theory Spec2Isabelle
  imports
    Complex_Main
    "HOL-Library.Product_Lexorder"
    "HOL-Library.List_Lexorder"
    "HOL-Library.Char_ord"
    "HOL-Library.Log_Nat"
begin

section \<open>ClimateScope: the data pipeline of \<^verbatim>\<open>app.py\<close>\<close>

text \<open>
  The program is one Python module. At import time it loads a CSV file into a pandas
  DataFrame \<^verbatim>\<open>df\<close>, cleans the \<^verbatim>\<open>last_updated\<close> column, adds two derived columns,
  computes two percentile thresholds and the frame \<^verbatim>\<open>extreme_df\<close>. Afterwards the callback
  \<^verbatim>\<open>render_content\<close> answers every user interaction: it filters \<^verbatim>\<open>df\<close>, aggregates the
  result per month when asked to, and hands the frame \<^verbatim>\<open>dff\<close> to the plotting library.

  The embedding follows the module top to bottom. What pandas and numpy do inside the
  calls the module makes (\<^verbatim>\<open>to_datetime\<close>, \<^verbatim>\<open>dropna\<close>, \<^verbatim>\<open>quantile\<close>, \<^verbatim>\<open>isin\<close>,
  \<^verbatim>\<open>groupby\<close>, \<^verbatim>\<open>mean\<close>, comparisons and arithmetic on columns) is written out as HOL
  functions with the library's documented default behaviour.
\<close>

subsection \<open>Data model\<close>

text \<open>
  A cell of a numeric (float64) column is a real number or NaN. pandas uses NaN as the
  missing-value marker of a float column, so a cell is \<open>real option\<close> and \<open>None\<close> is NaN.
  Infinite cells are not modelled. Arithmetic on cells is exact in this model; the
  rounding of the heat-index line in binary64 is treated in its own subsection.

  A parsed timestamp (\<^verbatim>\<open>datetime64[ns]\<close>) is given by its civil fields: year, month, day
  and the nanosecond of the day. The lexicographic order on the four fields is the
  chronological order of the instants.

  A row has the two columns the module reads by name for filtering and grouping,
  \<^verbatim>\<open>country\<close> and \<^verbatim>\<open>last_updated\<close>, and its numeric cells by column name. The type of the
  \<^verbatim>\<open>last_updated\<close> cell changes along the pipeline (text, then a timestamp or NaT, then a
  timestamp), so the row type is polymorphic in it. The module sorts the distinct
  countries when it builds the country dropdown, which Python refuses for a mixture of
  text and NaN; the \<^verbatim>\<open>country\<close> cell is therefore text.

  A frame is its list of numeric column names together with its rows; a column exists
  in a frame when its name is in \<open>columns\<close>, whether the frame has rows or not. Only
  numeric columns are modelled as cells: \<open>columns\<close> holds the names of the numeric
  columns, never \<^verbatim>\<open>country\<close>, \<^verbatim>\<open>last_updated\<close> or the helper column \<^verbatim>\<open>month\<close> of the
  callback, and text passthrough columns play no role below. The frame is taken after
  the module has normalised the column names (lower case, stripped).
\<close>

type_synonym cell = "real option"

type_synonym timestamp = "int \<times> nat \<times> nat \<times> nat"

record 'ts row =
  country :: string
  last_updated :: 'ts
  num :: "string \<Rightarrow> cell"

record 'ts frame =
  columns :: "string list"
  rows :: "'ts row list"

text \<open>
  Exceptions: the \<^verbatim>\<open>KeyError\<close> of a column lookup, with the name looked up, and any other
  exception that a library call raises, by the name of its class.
\<close>

datatype error = KeyError string | Raised string

subsection \<open>1. Load and clean\<close>

text \<open>
  \<^verbatim>\<open>df['last_updated'] = pd.to_datetime(df['last_updated'], errors='coerce')\<close>
  replaces each cell by its parsed value, or by NaT when the cell is blank or the parser
  rejects its text. The parser of pandas is not part of the repository; it is the
  parameter \<open>parse\<close>. A cell of the raw column is a text or blank (\<open>None\<close>).
\<close>

definition parsed :: "(string \<Rightarrow> timestamp option) \<Rightarrow> string option \<Rightarrow> timestamp option" where
  "parsed parse c = (case c of None \<Rightarrow> None | Some s \<Rightarrow> parse s)"

definition to_datetime_coerce ::
  "(string \<Rightarrow> timestamp option) \<Rightarrow> string option frame \<Rightarrow> timestamp option frame" where
  "to_datetime_coerce parse df =
     \<lparr>columns = columns df,
      rows = map (\<lambda>r. \<lparr>country = country r, last_updated = parsed parse (last_updated r), num = num r\<rparr>)
               (rows df)\<rparr>"

text \<open>
  \<^verbatim>\<open>df = df.dropna(subset=['last_updated'])\<close> keeps, in order, the rows whose
  \<^verbatim>\<open>last_updated\<close> is not NaT. The column of the result holds timestamps only.
\<close>

fun dropna_rows :: "timestamp option row list \<Rightarrow> timestamp row list" where
  "dropna_rows [] = []"
| "dropna_rows (r # rs) =
     (case last_updated r of
        None \<Rightarrow> dropna_rows rs
      | Some t \<Rightarrow> \<lparr>country = country r, last_updated = t, num = num r\<rparr> # dropna_rows rs)"

definition dropna_last_updated :: "timestamp option frame \<Rightarrow> timestamp frame" where
  "dropna_last_updated df = \<lparr>columns = columns df, rows = dropna_rows (rows df)\<rparr>"

definition clean :: "(string \<Rightarrow> timestamp option) \<Rightarrow> string option frame \<Rightarrow> timestamp frame" where
  "clean parse df = dropna_last_updated (to_datetime_coerce parse df)"

subsection \<open>2. Feature engineering\<close>

text \<open>
  Arithmetic on columns is cell by cell, and NaN in an operand gives NaN.
  \<^verbatim>\<open>df['wind_kph'] ** 0.16\<close> is numpy's float power: NaN for a negative base (no exception
  is raised), \<open>0\<close> for base \<open>0\<close>.
\<close>

definition heat_index :: "cell \<Rightarrow> cell \<Rightarrow> cell" where
  "heat_index t h =
     (case (t, h) of
        (Some tv, Some hv) \<Rightarrow> Some (tv + 0.33 * hv - 0.7)
      | _ \<Rightarrow> None)"

definition float_power :: "cell \<Rightarrow> real \<Rightarrow> cell" where
  "float_power b e =
     (case b of
        None \<Rightarrow> None
      | Some bv \<Rightarrow> if bv < 0 then None else Some (bv powr e))"

definition wind_chill :: "cell \<Rightarrow> cell \<Rightarrow> cell" where
  "wind_chill t w =
     (case (t, float_power w 0.16) of
        (Some tv, Some pv) \<Rightarrow> Some (13.12 + 0.6215 * tv - 11.37 * pv)
      | _ \<Rightarrow> None)"

text \<open>
  Reading a column that the frame does not have raises \<^verbatim>\<open>KeyError\<close>. Assigning a column
  appends its name when it is new and overwrites the cells otherwise.
\<close>

definition require :: "'ts frame \<Rightarrow> string \<Rightarrow> error + unit" where
  "require df c = (if c \<in> set (columns df) then Inr () else Inl (KeyError c))"

definition assign :: "string \<Rightarrow> ('ts row \<Rightarrow> cell) \<Rightarrow> 'ts frame \<Rightarrow> 'ts frame" where
  "assign c f df =
     \<lparr>columns = (if c \<in> set (columns df) then columns df else columns df @ [c]),
      rows = map (\<lambda>r. r\<lparr>num := (num r)(c := f r)\<rparr>) (rows df)\<rparr>"

definition add_heat_index :: "'ts frame \<Rightarrow> error + 'ts frame" where
  "add_heat_index df =
     (case require df ''temperature_celsius'' of
        Inl e \<Rightarrow> Inl e
      | Inr _ \<Rightarrow>
          (case require df ''humidity'' of
             Inl e \<Rightarrow> Inl e
           | Inr _ \<Rightarrow>
               Inr (assign ''heat_index''
                      (\<lambda>r. heat_index (num r ''temperature_celsius'') (num r ''humidity'')) df)))"

definition add_wind_chill :: "'ts frame \<Rightarrow> error + 'ts frame" where
  "add_wind_chill df =
     (case require df ''temperature_celsius'' of
        Inl e \<Rightarrow> Inl e
      | Inr _ \<Rightarrow>
          (case require df ''wind_kph'' of
             Inl e \<Rightarrow> Inl e
           | Inr _ \<Rightarrow>
               Inr (assign ''wind_chill''
                      (\<lambda>r. wind_chill (num r ''temperature_celsius'') (num r ''wind_kph'')) df)))"

definition engineer :: "'ts frame \<Rightarrow> error + 'ts frame" where
  "engineer df =
     (case add_heat_index df of
        Inl e \<Rightarrow> Inl e
      | Inr df1 \<Rightarrow> add_wind_chill df1)"

subsection \<open>The metric registry\<close>

text \<open>
  \<^verbatim>\<open>METRICS\<close> maps the six metric keys to their display labels. The module reads it in two
  places only: the options of the metric dropdown, and the column list of the correlation
  heatmap. The degree sign of the first label is its two UTF-8 bytes.
\<close>

definition METRICS :: "(string \<times> string) list" where
  "METRICS =
     [(''temperature_celsius'', ''Temperature ('' @ [CHR 0xC2, CHR 0xB0] @ ''C)''),
      (''humidity'', ''Humidity (%)''),
      (''precip_mm'', ''Precipitation (mm)''),
      (''wind_kph'', ''Wind Speed (kph)''),
      (''heat_index'', ''Heat Index''),
      (''wind_chill'', ''Wind Chill'')]"

subsection \<open>3. Extreme events\<close>

text \<open>
  \<^verbatim>\<open>Series.quantile(q)\<close> drops the NaN cells, sorts the rest and interpolates linearly
  between the two closest ranks around the position \<open>q * (n - 1)\<close>; the quantile of a
  column without any present cell is NaN.
\<close>

fun present :: "cell list \<Rightarrow> real list" where
  "present [] = []"
| "present (None # cs) = present cs"
| "present (Some x # cs) = x # present cs"

definition column :: "'ts frame \<Rightarrow> string \<Rightarrow> cell list" where
  "column df c = map (\<lambda>r. num r c) (rows df)"

definition quantile :: "cell list \<Rightarrow> real \<Rightarrow> cell" where
  "quantile col q =
     (let xs = sort (present col); n = length xs in
      if n = 0 then None
      else
        let pos = q * real (n - 1);
            lo = nat \<lfloor>pos\<rfloor>;
            hi = min (lo + 1) (n - 1);
            g = pos - real lo
        in Some (xs ! lo + (xs ! hi - xs ! lo) * g))"

definition temp_thr :: "'ts frame \<Rightarrow> cell" where
  "temp_thr df = quantile (column df ''temperature_celsius'') 0.99"

definition wind_thr :: "'ts frame \<Rightarrow> cell" where
  "wind_thr df = quantile (column df ''wind_kph'') 0.99"

text \<open>A comparison of two cells is false as soon as one of them is NaN.\<close>

definition ge_cell :: "cell \<Rightarrow> cell \<Rightarrow> bool" where
  "ge_cell a b = (case (a, b) of (Some x, Some y) \<Rightarrow> y \<le> x | _ \<Rightarrow> False)"

text \<open>
  \<^verbatim>\<open>extreme_df\<close> is computed from the engineered frame, in which both columns exist
  (\<open>engineer\<close> has read them), so the selection cannot raise.
\<close>

definition extreme_df :: "'ts frame \<Rightarrow> 'ts frame" where
  "extreme_df df =
     \<lparr>columns = columns df,
      rows = filter (\<lambda>r. ge_cell (num r ''temperature_celsius'') (temp_thr df) \<or>
                          ge_cell (num r ''wind_kph'') (wind_thr df)) (rows df)\<rparr>"

subsection \<open>7. The callback: filter and monthly aggregation\<close>

text \<open>
  The model covers \<^verbatim>\<open>render_content\<close> up to the frame \<^verbatim>\<open>dff\<close> that every tab draws from;
  the figures themselves belong to the plotting library. The tab does not influence
  \<^verbatim>\<open>dff\<close> and is not a parameter here. The country filter of the page delivers \<^verbatim>\<open>None\<close>
  or a list of names. The two dates arrive as text and pandas parses them when it compares
  them with the column; the model starts from the parsed instants.
\<close>

text \<open>\<^verbatim>\<open>Series.unique()\<close>: the distinct values in order of first appearance.\<close>

definition unique :: "'a list \<Rightarrow> 'a list" where
  "unique xs = rev (remdups (rev xs))"

text \<open>\<^verbatim>\<open>.dt.to_period('M').dt.to_timestamp()\<close>: the first instant of the month.\<close>

definition to_month_start :: "timestamp \<Rightarrow> timestamp" where
  "to_month_start t = (case t of (y, m, d, ns) \<Rightarrow> (y, m, 1, 0))"

text \<open>
  \<^verbatim>\<open>mean\<close> of a group skips NaN cells (\<^verbatim>\<open>skipna\<close> is the default); the mean of a group
  without any present cell is NaN.
\<close>

definition mean_skipna :: "cell list \<Rightarrow> cell" where
  "mean_skipna cs =
     (let xs = present cs in
      if xs = [] then None else Some (sum_list xs / real (length xs)))"

text \<open>
  \<^verbatim>\<open>groupby(['country', 'month'], as_index=False).agg({metric: 'mean'})\<close> followed by the
  renaming of \<^verbatim>\<open>month\<close> to \<^verbatim>\<open>last_updated\<close>. The groups are the distinct key pairs of the
  rows, in ascending order of the keys (\<^verbatim>\<open>sort=True\<close> is the default of \<^verbatim>\<open>groupby\<close>); each
  group gives one row with the two keys and the mean of the metric column. The result
  frame has no other numeric column. Country names are compared as Python compares
  \<^verbatim>\<open>str\<close>, character by character by code, which is the lexicographic order of the
  characters of a \<open>string\<close> here.
\<close>

definition group_key :: "timestamp row \<Rightarrow> string \<times> timestamp" where
  "group_key r = (country r, to_month_start (last_updated r))"

definition groupby_mean :: "timestamp row list \<Rightarrow> string \<Rightarrow> timestamp row list" where
  "groupby_mean rs metric =
     map (\<lambda>k. \<lparr>country = fst k, last_updated = snd k,
               num = (\<lambda>c. if c = metric
                           then mean_skipna (map (\<lambda>r. num r metric) (filter (\<lambda>r. group_key r = k) rs))
                           else None)\<rparr>)
         (sort (remdups (map group_key rs)))"

text \<open>
  The mask of the filter. \<^verbatim>\<open>if not countries\<close> holds for \<^verbatim>\<open>None\<close> and for the empty list.
\<close>

definition select_rows ::
  "timestamp frame \<Rightarrow> string list option \<Rightarrow> timestamp \<Rightarrow> timestamp \<Rightarrow> timestamp row list" where
  "select_rows df countries start_date end_date =
     (let cs = (case countries of
                  None \<Rightarrow> unique (map country (rows df))
                | Some [] \<Rightarrow> unique (map country (rows df))
                | Some (c # cs') \<Rightarrow> c # cs')
      in filter (\<lambda>r. country r \<in> set cs \<and> start_date \<le> last_updated r \<and> last_updated r \<le> end_date)
           (rows df))"

text \<open>
  Aggregating a column that the frame does not have raises \<^verbatim>\<open>KeyError\<close>, also when the
  filtered frame has no rows. Any value of \<^verbatim>\<open>time_agg\<close> other than \<^verbatim>\<open>'Monthly'\<close> leaves the
  filtered frame as it is. The metric keys in view are the names of numeric columns and
  names that are no column at all; what pandas does when the metric is the datetime
  column \<^verbatim>\<open>last_updated\<close> or one of the grouping columns is outside the model.
\<close>

definition render_content_dff ::
  "timestamp frame \<Rightarrow> string list option \<Rightarrow> string \<Rightarrow> timestamp \<Rightarrow> timestamp \<Rightarrow> string
     \<Rightarrow> error + timestamp frame" where
  "render_content_dff df countries metric start_date end_date time_agg =
     (let dff = select_rows df countries start_date end_date in
      if time_agg = ''Monthly'' then
        (if metric \<in> set (columns df)
         then Inr \<lparr>columns = [metric], rows = groupby_mean dff metric\<rparr>
         else Inl (KeyError metric))
      else Inr \<lparr>columns = columns df, rows = dff\<rparr>)"

subsection \<open>7. The callback: the page of the tab\<close>

text \<open>
  After \<^verbatim>\<open>dff\<close> the callback builds the page of the selected tab: the charts of the tabs
  \<^verbatim>\<open>exec\<close>, \<^verbatim>\<open>stats\<close> and \<^verbatim>\<open>trends\<close> from \<^verbatim>\<open>dff\<close>, the table and the chart of the tab
  \<^verbatim>\<open>extreme\<close> from \<^verbatim>\<open>extreme_df\<close>, a text for the tab \<^verbatim>\<open>help\<close>, and nothing for any other
  value. The charts are built by the plotting library, which is not part of the
  repository. It is the parameter \<open>px\<close>: for the title of a chart, the names of the columns
  that the call hands over and the frame, it gives the exception that the call raises, if
  any. The correlation heatmap stands for the selection of the six registry columns from
  \<^verbatim>\<open>dff\<close>, their correlation matrix and the chart of it. Python builds the charts of a page
  in the order of the source, and the first exception ends the callback. The page is
  given by the titles of its charts.
\<close>

type_synonym plotting = "string \<Rightarrow> string list \<Rightarrow> timestamp frame \<Rightarrow> error option"

fun charts :: "plotting \<Rightarrow> (string \<times> string list) list \<Rightarrow> timestamp frame \<Rightarrow> error + string list" where
  "charts px [] d = Inr []"
| "charts px ((title, cols) # cs) d =
     (case px title cols d of
        Some e \<Rightarrow> Inl e
      | None \<Rightarrow> (case charts px cs d of Inl e \<Rightarrow> Inl e | Inr titles \<Rightarrow> Inr (title # titles)))"

definition tab_content ::
  "plotting \<Rightarrow> timestamp frame \<Rightarrow> timestamp frame \<Rightarrow> string \<Rightarrow> string \<Rightarrow> error + string list" where
  "tab_content px dff ext tab metric =
     (if tab = ''exec'' then
        charts px [(''Trend Analysis'', [''last_updated'', metric, ''country'']),
                   (''Global Climate Map'', [''country'', metric, ''country''])] dff
      else if tab = ''stats'' then
        charts px [(''Temperature vs Humidity'', [''temperature_celsius'', ''humidity'', ''country'']),
                   (''Correlation Heatmap'', map fst METRICS)] dff
      else if tab = ''trends'' then
        charts px [(''Area Chart'', [''last_updated'', metric, ''country'']),
                   (''Violin Plot'', [metric]),
                   (''Box Plot'', [metric, ''country''])] dff
      else if tab = ''extreme'' then
        charts px [(''Extreme Event Frequency'', [''country''])] ext
      else Inr [])"

text \<open>
  The dataset also has columns that are not numeric: the text passthrough columns, whose
  names are the parameter \<open>text_columns\<close>, and the key columns \<^verbatim>\<open>country\<close> and
  \<^verbatim>\<open>last_updated\<close>, joined by the helper column \<^verbatim>\<open>month\<close> in the monthly branch. Such a name
  passes the column lookup of \<^verbatim>\<open>agg\<close>; what the mean of such a column then gives or raises
  is pandas' matter and the parameter \<open>agg_other\<close>. For every other metric the frame
  \<^verbatim>\<open>dff\<close> is the one of \<open>render_content_dff\<close>.
\<close>

definition key_columns :: "string list" where
  "key_columns = [''country'', ''last_updated'', ''month'']"

type_synonym other_mean = "string \<Rightarrow> timestamp row list \<Rightarrow> error + timestamp frame"

definition render_content ::
  "plotting \<Rightarrow> other_mean \<Rightarrow> string list \<Rightarrow> timestamp frame \<Rightarrow> timestamp frame \<Rightarrow>
     string \<Rightarrow> string list option \<Rightarrow> string \<Rightarrow> timestamp \<Rightarrow> timestamp \<Rightarrow> string \<Rightarrow> error + string list" where
  "render_content px agg_other text_columns df ext tab countries metric start_date end_date time_agg =
     (case (if time_agg = ''Monthly'' \<and> metric \<in> set (text_columns @ key_columns)
            then agg_other metric (select_rows df countries start_date end_date)
            else render_content_dff df countries metric start_date end_date time_agg) of
        Inl e \<Rightarrow> Inl e
      | Inr dff \<Rightarrow> tab_content px dff ext tab metric)"

text \<open>
  The module serves one request after the other. The callback reads the globals
  \<^verbatim>\<open>df\<close> and \<^verbatim>\<open>extreme_df\<close> and assigns to none of them: \<^verbatim>\<open>dff\<close> is a copy of the
  selection, and the column \<^verbatim>\<open>month\<close> is added to the copy. In state-passing form the
  callback takes the globals and returns them with the outcome of the request; an
  exception ends the request and the module goes on to the next one.
\<close>

record globals =
  g_df :: "timestamp frame"
  g_text_columns :: "string list"
  g_extreme_df :: "timestamp frame"

record request =
  r_tab :: string
  r_countries :: "string list option"
  r_metric :: string
  r_start_date :: timestamp
  r_end_date :: timestamp
  r_time_agg :: string

definition callback ::
  "plotting \<Rightarrow> other_mean \<Rightarrow> globals \<Rightarrow> request \<Rightarrow> globals \<times> (error + string list)" where
  "callback px agg_other g rq =
     (g, render_content px agg_other (g_text_columns g) (g_df g) (g_extreme_df g)
           (r_tab rq) (r_countries rq) (r_metric rq) (r_start_date rq) (r_end_date rq) (r_time_agg rq))"

fun serve ::
  "plotting \<Rightarrow> other_mean \<Rightarrow> globals \<Rightarrow> request list \<Rightarrow> globals \<times> (error + string list) list" where
  "serve px agg_other g [] = (g, [])"
| "serve px agg_other g (rq # rqs) =
     (case callback px agg_other g rq of
        (g', out) \<Rightarrow> (case serve px agg_other g' rqs of (g'', outs) \<Rightarrow> (g'', out # outs)))"

subsection \<open>The heat-index line in binary64\<close>

text \<open>
  The cells of the frame are IEEE binary64 numbers, and every arithmetic operation of
  the line \<^verbatim>\<open>df['temperature_celsius'] + 0.33 * df['humidity'] - 0.7\<close> rounds its exact
  result to the nearest binary64 number, ties to the even significand. \<open>f64\<close> is that
  rounding on the rationals, for results in the normal range (no overflow, no
  subnormals): \<open>binade x\<close> is the exponent \<open>e\<close> with \<open>2 ^ e \<le> \<bar>x\<bar> < 2 ^ (e + 1)\<close>, and
  the significand has 53 bits. The literals \<^verbatim>\<open>0.33\<close> and \<^verbatim>\<open>0.7\<close> denote the binary64
  numbers nearest to them. Python evaluates the line from left to right, the product
  first.
\<close>

definition pow2 :: "int \<Rightarrow> rat" where
  "pow2 e = (if 0 \<le> e then 2 ^ nat e else 1 / 2 ^ nat (- e))"





subsection \<open>Example data\<close>

text \<open>
  A small dataset for evaluating the functions: a stand-in for the parser that knows
  four dates, a raw frame with one unparseable date and one blank date, the cleaned frame
  with the same readings (the second reading has a negative wind speed, the third lacks
  the humidity), and a raw frame whose only row has no numeric reading at all.
\<close>

definition example_parse :: "string \<Rightarrow> timestamp option" where
  "example_parse =
     map_of [(''2024-05-16 13:15'', (2024, 5, 16, 47700000000000)),
             (''2024-05-20 09:00'', (2024, 5, 20, 32400000000000)),
             (''2024-06-02 00:00'', (2024, 6, 2, 0)),
             (''2023-12-31 23:59'', (2023, 12, 31, 86340000000000))]"

definition example_columns :: "string list" where
  "example_columns =
     [''temperature_celsius'', ''humidity'', ''precip_mm'', ''wind_kph'', ''pressure_mb'']"

definition example_raw :: "string option frame" where
  "example_raw =
     \<lparr>columns = example_columns,
      rows =
        [\<lparr>country = ''India'', last_updated = Some ''2024-05-16 13:15'',
          num = map_of [(''temperature_celsius'', 30), (''humidity'', 10), (''precip_mm'', 0),
                        (''wind_kph'', 0), (''pressure_mb'', 1010)]\<rparr>,
         \<lparr>country = ''Peru'', last_updated = Some ''yesterday'',
          num = map_of [(''temperature_celsius'', 18), (''humidity'', 60), (''precip_mm'', 0),
                        (''wind_kph'', 7), (''pressure_mb'', 1012)]\<rparr>,
         \<lparr>country = ''India'', last_updated = Some ''2024-05-20 09:00'',
          num = map_of [(''temperature_celsius'', 32), (''humidity'', 20), (''precip_mm'', 3 / 2),
                        (''wind_kph'', - 5), (''pressure_mb'', 1008)]\<rparr>,
         \<lparr>country = ''Kenya'', last_updated = None,
          num = map_of [(''temperature_celsius'', 25), (''humidity'', 40), (''precip_mm'', 0),
                        (''wind_kph'', 11), (''pressure_mb'', 1011)]\<rparr>,
         \<lparr>country = ''Chile'', last_updated = Some ''2024-05-20 09:00'',
          num = map_of [(''temperature_celsius'', 12), (''precip_mm'', 0),
                        (''wind_kph'', 20), (''pressure_mb'', 1015)]\<rparr>]\<rparr>"

definition example_df :: "timestamp frame" where
  "example_df =
     \<lparr>columns = example_columns,
      rows =
        [\<lparr>country = ''India'', last_updated = (2024, 5, 16, 47700000000000),
          num = map_of [(''temperature_celsius'', 30), (''humidity'', 10), (''precip_mm'', 0),
                        (''wind_kph'', 0), (''pressure_mb'', 1010)]\<rparr>,
         \<lparr>country = ''India'', last_updated = (2024, 5, 20, 32400000000000),
          num = map_of [(''temperature_celsius'', 32), (''humidity'', 20), (''precip_mm'', 3 / 2),
                        (''wind_kph'', - 5), (''pressure_mb'', 1008)]\<rparr>,
         \<lparr>country = ''Chile'', last_updated = (2024, 5, 20, 32400000000000),
          num = map_of [(''temperature_celsius'', 12), (''precip_mm'', 0),
                        (''wind_kph'', 20), (''pressure_mb'', 1015)]\<rparr>]\<rparr>"

definition example_raw_blank :: "string option frame" where
  "example_raw_blank =
     \<lparr>columns = example_columns,
      rows = [\<lparr>country = ''Chile'', last_updated = Some ''2024-06-02 00:00'', num = map_of []\<rparr>]\<rparr>"

text \<open>The cleaned example frame with its rows in ascending order of (country, timestamp).\<close>

definition example_df_sorted :: "timestamp frame" where
  "example_df_sorted =
     \<lparr>columns = example_columns,
      rows = [rows example_df ! 2, rows example_df ! 0, rows example_df ! 1]\<rparr>"

text \<open>
  A plotting library that refuses a chart when it is handed a name that is no column of
  the frame, a mean that refuses every column that is not numeric, and the globals of
  the module for the example frame.
\<close>

definition example_px :: plotting where
  "example_px title cols d =
     (if set cols \<subseteq> set (columns d) \<union> {''country'', ''last_updated''}
      then None else Some (Raised ''ValueError''))"

definition example_agg_other :: other_mean where
  "example_agg_other metric rs = Inl (Raised ''TypeError'')"

definition example_globals :: globals where
  "example_globals =
     \<lparr>g_df = example_df, g_text_columns = [''condition_text''], g_extreme_df = extreme_df example_df\<rparr>"

definition example_requests :: "request list" where
  "example_requests =
     [\<lparr>r_tab = ''help'', r_countries = None, r_metric = ''humidity'',
       r_start_date = (2024, 1, 1, 0), r_end_date = (2024, 12, 31, 0), r_time_agg = ''Monthly''\<rparr>,
      \<lparr>r_tab = ''exec'', r_countries = None, r_metric = ''no_such_column'',
       r_start_date = (2024, 1, 1, 0), r_end_date = (2024, 12, 31, 0), r_time_agg = ''Monthly''\<rparr>,
      \<lparr>r_tab = ''exec'', r_countries = Some [''India''], r_metric = ''pressure_mb'',
       r_start_date = (2024, 1, 1, 0), r_end_date = (2024, 12, 31, 0), r_time_agg = ''Monthly''\<rparr>]"

text \<open>The projection of a row to the triple that a result view shows for a metric.\<close>

definition view :: "string \<Rightarrow> timestamp row \<Rightarrow> string \<times> timestamp \<times> cell" where
  "view metric r = (country r, last_updated r, num r metric)"

definition row_key :: "timestamp row \<Rightarrow> string \<times> timestamp" where
  "row_key r = (country r, last_updated r)"

section \<open>Properties\<close>

subsection \<open>Cleaning\<close>

lemma dropna_rows_coerce:
  "dropna_rows (map (\<lambda>r. \<lparr>country = country r, last_updated = parsed parse (last_updated r), num = num r\<rparr>) rs) =
   map (\<lambda>r. \<lparr>country = country r, last_updated = the (parsed parse (last_updated r)), num = num r\<rparr>)
     (filter (\<lambda>r. parsed parse (last_updated r) \<noteq> None) rs)"
  by (induction rs) (auto split: option.splits)

lemma rows_clean:
  "rows (clean parse df) =
   map (\<lambda>r. \<lparr>country = country r, last_updated = the (parsed parse (last_updated r)), num = num r\<rparr>)
     (filter (\<lambda>r. parsed parse (last_updated r) \<noteq> None) (rows df))"
  by (simp add: clean_def dropna_last_updated_def to_datetime_coerce_def dropna_rows_coerce)

text \<open>
  C8. Cleaning is a total function: it raises nothing for a bad row. Its result consists
  of exactly the rows of the source whose \<^verbatim>\<open>last_updated\<close> cell holds a text that parses,
  in their order and with the parsed timestamp in place of the text; hence every row of
  the cleaned frame has a timestamp, namely the one the parser gave for the text of its
  source row, and the frame has at most as many rows as the source. The columns are
  unchanged.
\<close>

theorem clean_keeps_exactly_the_parsed_rows:
  "rows (clean parse df) =
     map (\<lambda>r. \<lparr>country = country r, last_updated = the (parsed parse (last_updated r)), num = num r\<rparr>)
       (filter (\<lambda>r. parsed parse (last_updated r) \<noteq> None) (rows df)) \<and>
   (\<forall>r \<in> set (rows (clean parse df)). \<exists>raw \<in> set (rows df). \<exists>s.
      last_updated raw = Some s \<and> parse s = Some (last_updated r) \<and>
      country r = country raw \<and> num r = num raw) \<and>
   length (rows (clean parse df)) \<le> length (rows df) \<and>
   columns (clean parse df) = columns df"
proof -
  have "\<exists>raw \<in> set (rows df). \<exists>s.
      last_updated raw = Some s \<and> parse s = Some (last_updated r) \<and>
      country r = country raw \<and> num r = num raw"
    if "r \<in> set (rows (clean parse df))" for r
    using that by (fastforce simp: rows_clean parsed_def split: option.splits)
  moreover have "length (rows (clean parse df)) \<le> length (rows df)"
    by (simp add: rows_clean)
  moreover have "columns (clean parse df) = columns df"
    by (simp add: clean_def dropna_last_updated_def to_datetime_coerce_def)
  ultimately show ?thesis
    using rows_clean by blast
qed

theorem clean_keeps_exactly_the_parsed_rows_witness:
  "rows (clean example_parse example_raw) = rows example_df \<and>
   length (rows example_raw) = 5 \<and> length (rows (clean example_parse example_raw)) = 3 \<and>
   example_parse ''yesterday'' = None"
  using clean_keeps_exactly_the_parsed_rows [of example_parse example_raw]
  by (simp add: clean_def dropna_last_updated_def to_datetime_coerce_def parsed_def example_raw_def
      example_df_def example_parse_def)

subsection \<open>Feature engineering\<close>




lemma pow2_nat: "pow2 (int n) = 2 ^ n"
  by (simp add: pow2_def)


















subsection \<open>The callback\<close>

lemma set_unique: "set (unique xs) = set xs"
  by (simp add: unique_def)

lemma select_rows_None:
  "select_rows df None s e =
   filter (\<lambda>r. s \<le> last_updated r \<and> last_updated r \<le> e) (rows df)"
  by (auto simp: select_rows_def set_unique intro: filter_cong)

lemma select_rows_Some:
  "select_rows df (Some cs) s e =
   filter (\<lambda>r. (cs = [] \<or> country r \<in> set cs) \<and> s \<le> last_updated r \<and> last_updated r \<le> e) (rows df)"
  by (cases cs) (auto simp: select_rows_def set_unique intro: filter_cong)

lemma select_rows_is_filter:
  "\<exists>P. select_rows df countries s e = filter P (rows df)"
  by (cases countries) (auto simp: select_rows_None select_rows_Some)

lemma render_monthly:
  "metric \<in> set (columns df) \<Longrightarrow>
   render_content_dff df countries metric s e ''Monthly'' =
     Inr \<lparr>columns = [metric], rows = groupby_mean (select_rows df countries s e) metric\<rparr>"
  by (simp add: render_content_dff_def)

lemma render_daily:
  "time_agg \<noteq> ''Monthly'' \<Longrightarrow>
   render_content_dff df countries metric s e time_agg =
     Inr \<lparr>columns = columns df, rows = select_rows df countries s e\<rparr>"
  by (simp add: render_content_dff_def)

lemma keys_groupby_mean:
  "map row_key (groupby_mean rs metric) = sort (remdups (map group_key rs))"
  by (simp add: groupby_mean_def row_key_def comp_def)

lemma distinct_keys_groupby_mean: "distinct (map row_key (groupby_mean rs metric))"
  by (simp add: keys_groupby_mean)

lemma sorted_keys_groupby_mean: "sorted (map row_key (groupby_mean rs metric))"
  by (simp add: keys_groupby_mean)

lemma set_keys_groupby_mean: "set (map row_key (groupby_mean rs metric)) = group_key ` set rs"
  by (simp add: keys_groupby_mean)

lemma num_groupby_mean:
  "out \<in> set (groupby_mean rs metric) \<Longrightarrow>
   num out metric = mean_skipna (map (\<lambda>r. num r metric) (filter (\<lambda>r. group_key r = row_key out) rs))"
  by (auto simp: groupby_mean_def row_key_def)

lemma length_filter_key:
  "distinct (map f xs) \<Longrightarrow> k \<in> f ` set xs \<Longrightarrow> length (filter (\<lambda>x. f x = k) xs) = 1"
proof (induction xs)
  case Nil
  then show ?case by simp
next
  case (Cons x xs)
  show ?case
  proof (cases "f x = k")
    case True
    with Cons.prems have "filter (\<lambda>x. f x = k) xs = []"
      by (auto simp: filter_empty_conv image_iff)
    with True show ?thesis by simp
  next
    case False
    with Cons show ?thesis by auto
  qed
qed

lemma present_all_None: "\<forall>c \<in> set cs. c = None \<Longrightarrow> present cs = []"
  by (induction cs rule: present.induct) auto





text \<open>
  C10. In a Monthly query whose metric is a column of the frame, a group of filtered
  rows in which every metric cell is missing still gives exactly one row of the result,
  and the metric cell of that row is missing.
\<close>

theorem monthly_group_without_values_is_kept:
  assumes "metric \<in> set (columns df)"
    and "r \<in> set (select_rows df countries start_date end_date)"
    and "\<forall>r' \<in> set (select_rows df countries start_date end_date).
           group_key r' = group_key r \<longrightarrow> num r' metric = None"
  shows "\<exists>out. render_content_dff df countries metric start_date end_date ''Monthly'' = Inr out \<and>
     length (filter (\<lambda>out_row. row_key out_row = group_key r) (rows out)) = 1 \<and>
     (\<forall>out_row \<in> set (rows out). row_key out_row = group_key r \<longrightarrow> num out_row metric = None)"
proof -
  let ?dff = "select_rows df countries start_date end_date"
  let ?out = "\<lparr>columns = [metric], rows = groupby_mean ?dff metric\<rparr>"
  have "render_content_dff df countries metric start_date end_date ''Monthly'' = Inr ?out"
    using assms(1) by (rule render_monthly)
  moreover have "length (filter (\<lambda>out_row. row_key out_row = group_key r) (rows ?out)) = 1"
  proof -
    have "group_key r \<in> row_key ` set (groupby_mean ?dff metric)"
      using set_keys_groupby_mean [of ?dff metric] assms(2) by auto
    then show ?thesis
      using length_filter_key [OF distinct_keys_groupby_mean] by simp
  qed
  moreover have "num out_row metric = None"
    if "out_row \<in> set (rows ?out)" and "row_key out_row = group_key r" for out_row
  proof -
    have "present (map (\<lambda>r. num r metric) (filter (\<lambda>r'. group_key r' = row_key out_row) ?dff)) = []"
      using assms(3) that(2) by (intro present_all_None) auto
    then show ?thesis
      using that(1) by (simp add: num_groupby_mean mean_skipna_def)
  qed
  ultimately show ?thesis by blast
qed

theorem monthly_group_without_values_is_kept_witness:
  "\<exists>out. render_content_dff example_df None ''humidity'' (2024, 1, 1, 0) (2024, 12, 31, 0) ''Monthly'' = Inr out \<and>
     rows example_df ! 2 \<in> set (select_rows example_df None (2024, 1, 1, 0) (2024, 12, 31, 0)) \<and>
     group_key (rows example_df ! 2) = (''Chile'', (2024, 5, 1, 0)) \<and>
     length (filter (\<lambda>out_row. row_key out_row = (''Chile'', (2024, 5, 1, 0))) (rows out)) = 1 \<and>
     map (view ''humidity'') (filter (\<lambda>out_row. row_key out_row = (''Chile'', (2024, 5, 1, 0))) (rows out)) =
       [(''Chile'', (2024, 5, 1, 0), None)]"
proof -
  let ?s = "(2024, 1, 1, 0) :: timestamp" and ?e = "(2024, 12, 31, 0) :: timestamp"
  have h1: "''humidity'' \<in> set (columns example_df)"
    by (simp add: example_df_def example_columns_def)
  have h2: "rows example_df ! 2 \<in> set (select_rows example_df None ?s ?e)"
    by (simp add: select_rows_def unique_def example_df_def)
  have h3: "\<forall>r' \<in> set (select_rows example_df None ?s ?e).
      group_key r' = group_key (rows example_df ! 2) \<longrightarrow> num r' ''humidity'' = None"
    by (simp add: select_rows_def unique_def group_key_def to_month_start_def example_df_def)
  have "\<exists>out. render_content_dff example_df None ''humidity'' ?s ?e ''Monthly'' = Inr out \<and>
     rows example_df ! 2 \<in> set (select_rows example_df None ?s ?e) \<and>
     group_key (rows example_df ! 2) = (''Chile'', (2024, 5, 1, 0)) \<and>
     length (filter (\<lambda>out_row. row_key out_row = (''Chile'', (2024, 5, 1, 0))) (rows out)) = 1 \<and>
     map (view ''humidity'') (filter (\<lambda>out_row. row_key out_row = (''Chile'', (2024, 5, 1, 0))) (rows out)) =
       [(''Chile'', (2024, 5, 1, 0), None)]"
    by (simp add: render_content_dff_def select_rows_def unique_def groupby_mean_def group_key_def
        to_month_start_def mean_skipna_def view_def row_key_def example_df_def example_columns_def
        Let_def)
  with monthly_group_without_values_is_kept [OF h1 h2 h3]
  show ?thesis by blast
qed

lemma select_rows_cong:
  assumes "set cs = country ` set (rows df)"
  shows "select_rows df (Some cs) s e = select_rows df None s e"
  using assms by (auto simp: select_rows_None select_rows_Some intro: filter_cong)

lemma select_rows_empty_list: "select_rows df (Some []) s e = select_rows df None s e"
  by (simp add: select_rows_None select_rows_Some)

text \<open>
  C3. A query without a country selection (\<^verbatim>\<open>None\<close> or the empty list) has the same
  outcome, result frame or error, as the same query with any list that holds exactly
  the countries present in the frame, whatever its order and repetitions; the list of
  the distinct countries in order of appearance is one such list.
\<close>

theorem empty_country_filter_selects_all_countries:
  assumes "set cs = country ` set (rows df)"
  shows "render_content_dff df None metric start_date end_date time_agg =
           render_content_dff df (Some cs) metric start_date end_date time_agg \<and>
         render_content_dff df (Some []) metric start_date end_date time_agg =
           render_content_dff df (Some cs) metric start_date end_date time_agg \<and>
         render_content_dff df None metric start_date end_date time_agg =
           render_content_dff df (Some (unique (map country (rows df)))) metric start_date end_date time_agg"
proof -
  have "set (unique (map country (rows df))) = country ` set (rows df)"
    by (simp add: set_unique)
  then show ?thesis
    using assms by (simp add: render_content_dff_def select_rows_cong select_rows_empty_list)
qed

theorem empty_country_filter_selects_all_countries_witness:
  "set [''Chile'', ''India'', ''Chile''] = country ` set (rows example_df) \<and>
   render_content_dff example_df None ''humidity'' (2024, 5, 1, 0) (2024, 5, 31, 0) ''Daily'' =
     render_content_dff example_df (Some [''Chile'', ''India'', ''Chile'']) ''humidity'' (2024, 5, 1, 0) (2024, 5, 31, 0) ''Daily'' \<and>
   render_content_dff example_df (Some []) ''humidity'' (2024, 5, 1, 0) (2024, 5, 31, 0) ''Monthly'' =
     render_content_dff example_df (Some [''Chile'', ''India'', ''Chile'']) ''humidity'' (2024, 5, 1, 0) (2024, 5, 31, 0) ''Monthly'' \<and>
   render_content_dff example_df (Some [''Chile'']) ''humidity'' (2024, 5, 1, 0) (2024, 5, 31, 0) ''Daily'' \<noteq>
     render_content_dff example_df None ''humidity'' (2024, 5, 1, 0) (2024, 5, 31, 0) ''Daily''"
proof -
  have h: "set [''Chile'', ''India'', ''Chile''] = country ` set (rows example_df)"
    by (auto simp: example_df_def)
  have "render_content_dff example_df (Some [''Chile'']) ''humidity'' (2024, 5, 1, 0) (2024, 5, 31, 0) ''Daily'' \<noteq>
     render_content_dff example_df None ''humidity'' (2024, 5, 1, 0) (2024, 5, 31, 0) ''Daily''"
    by (simp add: render_content_dff_def select_rows_def unique_def example_df_def Let_def)
  with h empty_country_filter_selects_all_countries [OF h]
  show ?thesis by blast
qed

lemma select_rows_inverted: "end_date < start_date \<Longrightarrow> select_rows df countries start_date end_date = []"
  by (cases countries) (auto simp: select_rows_None select_rows_Some filter_empty_conv)

text \<open>
  C4. When the start date is after the end date the mask of the filter selects no row,
  whatever the other parameters are. A query without monthly aggregation then returns
  the frame without rows, and so does a monthly query whose metric is a column of the
  frame; neither raises.
\<close>

theorem inverted_date_range_gives_empty_frame:
  assumes "end_date < start_date"
  shows "select_rows df countries start_date end_date = [] \<and>
         (time_agg \<noteq> ''Monthly'' \<longrightarrow>
            render_content_dff df countries metric start_date end_date time_agg =
              Inr \<lparr>columns = columns df, rows = []\<rparr>) \<and>
         (metric \<in> set (columns df) \<longrightarrow>
            render_content_dff df countries metric start_date end_date ''Monthly'' =
              Inr \<lparr>columns = [metric], rows = []\<rparr>)"
  using assms
  by (simp add: render_daily render_monthly select_rows_inverted groupby_mean_def)

theorem inverted_date_range_gives_empty_frame_witness:
  "((2024, 5, 1, 0) :: timestamp) < (2024, 5, 31, 0) \<and>
   select_rows example_df None (2024, 5, 31, 0) (2024, 5, 1, 0) = [] \<and>
   ''Daily'' \<noteq> ''Monthly'' \<and> ''humidity'' \<in> set (columns example_df) \<and>
   render_content_dff example_df None ''humidity'' (2024, 5, 31, 0) (2024, 5, 1, 0) ''Daily'' =
     Inr \<lparr>columns = columns example_df, rows = []\<rparr> \<and>
   render_content_dff example_df None ''humidity'' (2024, 5, 31, 0) (2024, 5, 1, 0) ''Monthly'' =
     Inr \<lparr>columns = [''humidity''], rows = []\<rparr>"
proof -
  have h: "((2024, 5, 1, 0) :: timestamp) < (2024, 5, 31, 0)"
    by simp
  have c: "''humidity'' \<in> set (columns example_df)"
    by (simp add: example_df_def example_columns_def)
  have d: "''Daily'' \<noteq> ''Monthly''"
    by simp
  from inverted_date_range_gives_empty_frame [OF h, of example_df None "''Daily''" "''humidity''"] h c d
  show ?thesis by blast
qed

text \<open>
  C2, as stated, fails for a query without monthly aggregation: the result keeps the
  order of the rows in the frame, and the example frame is not in ascending order.
\<close>

theorem daily_result_unsorted_counterexample:
  "render_content_dff example_df None ''humidity'' (2024, 1, 1, 0) (2024, 12, 31, 0) ''Daily'' =
     Inr \<lparr>columns = columns example_df, rows = rows example_df\<rparr> \<and>
   \<not> sorted (map row_key (rows example_df))"
  by (simp add: render_content_dff_def select_rows_def unique_def row_key_def example_df_def Let_def)

text \<open>
  C2, amended. The rows of a Monthly result are in strictly ascending order of
  (country, timestamp). Without monthly aggregation the result consists of the selected
  rows of the frame in the order of the frame, so it is in ascending order whenever the
  rows of the frame are.
\<close>

theorem result_order:
  "(metric \<in> set (columns df) \<longrightarrow>
      (\<exists>out. render_content_dff df countries metric start_date end_date ''Monthly'' = Inr out \<and>
         sorted (map row_key (rows out)) \<and> distinct (map row_key (rows out)))) \<and>
   (time_agg \<noteq> ''Monthly'' \<longrightarrow>
      (\<exists>out P. render_content_dff df countries metric start_date end_date time_agg = Inr out \<and>
         rows out = filter P (rows df) \<and>
         (sorted (map row_key (rows df)) \<longrightarrow> sorted (map row_key (rows out)))))"
proof (intro conjI impI)
  assume "metric \<in> set (columns df)"
  then show "\<exists>out. render_content_dff df countries metric start_date end_date ''Monthly'' = Inr out \<and>
         sorted (map row_key (rows out)) \<and> distinct (map row_key (rows out))"
    by (simp add: render_monthly sorted_keys_groupby_mean distinct_keys_groupby_mean)
next
  assume daily: "time_agg \<noteq> ''Monthly''"
  obtain P where P: "select_rows df countries start_date end_date = filter P (rows df)"
    using select_rows_is_filter by blast
  let ?out = "\<lparr>columns = columns df, rows = select_rows df countries start_date end_date\<rparr>"
  have "render_content_dff df countries metric start_date end_date time_agg = Inr ?out"
    using daily by (rule render_daily)
  moreover have "rows ?out = filter P (rows df)"
    using P by simp
  moreover have "sorted (map row_key (rows df)) \<longrightarrow> sorted (map row_key (rows ?out))"
    using P by (simp add: sorted_filter)
  ultimately show "\<exists>out P. render_content_dff df countries metric start_date end_date time_agg = Inr out \<and>
         rows out = filter P (rows df) \<and>
         (sorted (map row_key (rows df)) \<longrightarrow> sorted (map row_key (rows out)))"
    by blast
qed

theorem result_order_witness:
  "''humidity'' \<in> set (columns example_df) \<and> ''Daily'' \<noteq> ''Monthly'' \<and>
   sorted (map row_key (rows example_df_sorted)) \<and>
   (\<exists>out. render_content_dff example_df None ''humidity'' (2024, 1, 1, 0) (2024, 12, 31, 0) ''Monthly'' = Inr out \<and>
      map row_key (rows out) = [(''Chile'', (2024, 5, 1, 0)), (''India'', (2024, 5, 1, 0))]) \<and>
   (\<exists>out. render_content_dff example_df_sorted (Some [''India'']) ''humidity'' (2024, 1, 1, 0) (2024, 12, 31, 0) ''Daily'' = Inr out \<and>
      map row_key (rows out) =
        [(''India'', (2024, 5, 16, 47700000000000)), (''India'', (2024, 5, 20, 32400000000000))])"
proof -
  have "''humidity'' \<in> set (columns example_df) \<and> ''Daily'' \<noteq> ''Monthly'' \<and>
   sorted (map row_key (rows example_df_sorted)) \<and>
   (\<exists>out. render_content_dff example_df None ''humidity'' (2024, 1, 1, 0) (2024, 12, 31, 0) ''Monthly'' = Inr out \<and>
      map row_key (rows out) = [(''Chile'', (2024, 5, 1, 0)), (''India'', (2024, 5, 1, 0))]) \<and>
   (\<exists>out. render_content_dff example_df_sorted (Some [''India'']) ''humidity'' (2024, 1, 1, 0) (2024, 12, 31, 0) ''Daily'' = Inr out \<and>
      map row_key (rows out) =
        [(''India'', (2024, 5, 16, 47700000000000)), (''India'', (2024, 5, 20, 32400000000000))])"
    by (simp add: render_content_dff_def select_rows_def unique_def groupby_mean_def group_key_def
        to_month_start_def row_key_def example_df_sorted_def example_df_def example_columns_def Let_def)
  with result_order [of "''humidity''" example_df None "(2024, 1, 1, 0)" "(2024, 12, 31, 0)" "''Daily''"]
  show ?thesis by blast
qed




subsection \<open>Extreme events\<close>

lemma set_present: "set (present cs) = {x. Some x \<in> set cs}"
  by (induction cs rule: present.induct) auto

lemma interpolation_le_upper:
  fixes a b g :: real
  assumes "a \<le> b" and "0 \<le> g" and "g \<le> 1"
  shows "a + (b - a) * g \<le> b"
proof -
  have "(b - a) * g \<le> (b - a) * 1"
    using assms by (intro mult_left_mono) auto
  then show ?thesis by simp
qed

lemma quantile_99_le_Max:
  assumes "present col \<noteq> []"
  shows "\<exists>thr. quantile col 0.99 = Some thr \<and> thr \<le> Max (set (present col))"
proof -
  define xs where "xs = sort (present col)"
  define n where "n = length xs"
  define pos :: real where "pos = 0.99 * real (n - 1)"
  define lo where "lo = nat \<lfloor>pos\<rfloor>"
  define hi where "hi = min (lo + 1) (n - 1)"
  define g where "g = pos - real lo"
  have n_pos: "0 < n"
    using assms by (simp add: n_def xs_def)
  have pos_ge: "0 \<le> pos" and pos_le: "pos \<le> real (n - 1)"
    by (simp_all add: pos_def)
  have floor_ge: "0 \<le> \<lfloor>pos\<rfloor>"
    using pos_ge by simp
  have "\<lfloor>pos\<rfloor> \<le> int (n - 1)"
    using pos_le by (simp add: floor_le_iff)
  then have lo_le: "lo \<le> n - 1"
    by (simp add: lo_def)
  have lo_hi: "lo \<le> hi" and hi_lt: "hi < n"
    using lo_le n_pos by (simp_all add: hi_def)
  have real_lo: "real lo = of_int \<lfloor>pos\<rfloor>"
    using floor_ge by (simp add: lo_def)
  have g_ge: "0 \<le> g" and g_le: "g \<le> 1"
    unfolding g_def real_lo by linarith+
  have "sorted xs"
    by (simp add: xs_def)
  then have "xs ! lo \<le> xs ! hi"
    using lo_hi hi_lt by (simp add: sorted_nth_mono n_def)
  then have "xs ! lo + (xs ! hi - xs ! lo) * g \<le> xs ! hi"
    using g_ge g_le by (rule interpolation_le_upper)
  moreover have "xs ! hi \<le> Max (set xs)"
    using hi_lt by (simp add: n_def)
  moreover have "set xs = set (present col)"
    by (simp add: xs_def)
  moreover have "quantile col 0.99 = Some (xs ! lo + (xs ! hi - xs ! lo) * g)"
    using assms
    unfolding quantile_def Let_def g_def hi_def lo_def pos_def n_def xs_def
    by simp
  ultimately show ?thesis by simp
qed

lemma row_reaches_threshold:
  assumes "r \<in> set (rows df)" and "num r c \<noteq> None"
  shows "\<exists>r' \<in> set (rows df). ge_cell (num r' c) (quantile (column df c) 0.99)"
proof -
  let ?col = "column df c"
  from assms(2) obtain x where "num r c = Some x"
    by auto
  with assms(1) have "Some x \<in> set ?col"
    by (force simp: column_def)
  then have ne: "present ?col \<noteq> []"
    using set_present [of ?col] by auto
  then obtain thr where thr: "quantile ?col 0.99 = Some thr" "thr \<le> Max (set (present ?col))"
    using quantile_99_le_Max by blast
  have "Max (set (present ?col)) \<in> set (present ?col)"
    using ne by (intro Max_in) auto
  then have "Some (Max (set (present ?col))) \<in> set ?col"
    by (simp add: set_present)
  then obtain r' where r': "r' \<in> set (rows df)" "num r' c = Some (Max (set (present ?col)))"
    by (auto simp: column_def)
  then have "ge_cell (num r' c) (quantile ?col 0.99)"
    using thr by (simp add: ge_cell_def)
  with r'(1) show ?thesis by blast
qed

text \<open>
  C5, amended. If at least one row of the frame has a present temperature or a present
  wind speed, \<^verbatim>\<open>extreme_df\<close> has a row: the 99th percentile of a column, interpolated
  linearly between the closest ranks of its present cells, is at most the largest present
  cell, so a row that holds the largest cell passes the comparison.
\<close>

theorem extreme_df_nonempty:
  assumes "\<exists>r \<in> set (rows df). num r ''temperature_celsius'' \<noteq> None \<or> num r ''wind_kph'' \<noteq> None"
  shows "rows (extreme_df df) \<noteq> []"
proof -
  from assms obtain r where r: "r \<in> set (rows df)"
    and "num r ''temperature_celsius'' \<noteq> None \<or> num r ''wind_kph'' \<noteq> None"
    by blast
  then have "\<exists>r' \<in> set (rows df).
      ge_cell (num r' ''temperature_celsius'') (temp_thr df) \<or> ge_cell (num r' ''wind_kph'') (wind_thr df)"
    using row_reaches_threshold [OF r] unfolding temp_thr_def wind_thr_def by blast
  then show ?thesis
    by (auto simp: extreme_df_def filter_empty_conv)
qed

theorem extreme_df_nonempty_witness:
  "num (rows example_df ! 0) ''temperature_celsius'' = Some 30 \<and>
   temp_thr example_df = Some 31.96 \<and> wind_thr example_df = Some 19.6 \<and>
   rows (extreme_df example_df) = [rows example_df ! 1, rows example_df ! 2]"
proof -
  have t: "temp_thr example_df = Some 31.96" and w: "wind_thr example_df = Some 19.6"
    by (simp_all add: temp_thr_def wind_thr_def quantile_def column_def example_df_def Let_def)
  have h: "\<exists>r \<in> set (rows example_df). num r ''temperature_celsius'' \<noteq> None \<or> num r ''wind_kph'' \<noteq> None"
    by (simp add: example_df_def)
  have "num (rows example_df ! 0) ''temperature_celsius'' = Some 30 \<and>
     rows (extreme_df example_df) = [rows example_df ! 1, rows example_df ! 2]"
    unfolding extreme_df_def t w by (simp add: ge_cell_def example_df_def)
  with t w extreme_df_nonempty [OF h] show ?thesis by blast
qed

text \<open>
  C5, as stated, fails: the raw frame whose only row has a date that parses and no numeric
  reading passes cleaning and engineering with its row, both thresholds are NaN, every
  comparison with them is false, and \<^verbatim>\<open>extreme_df\<close> has no row.
\<close>

theorem extreme_df_empty_counterexample:
  "\<not> isl (engineer (clean example_parse example_raw_blank)) \<and>
   length (rows (projr (engineer (clean example_parse example_raw_blank)))) = 1 \<and>
   rows (extreme_df (projr (engineer (clean example_parse example_raw_blank)))) = []"
  by (simp add: clean_def dropna_last_updated_def to_datetime_coerce_def parsed_def engineer_def
      add_heat_index_def add_wind_chill_def require_def assign_def heat_index_def wind_chill_def
      float_power_def extreme_df_def temp_thr_def wind_thr_def quantile_def column_def ge_cell_def
      example_raw_blank_def example_parse_def example_columns_def)

end
